theory Spec2Isabelle
  imports Complex_Main
begin

section \<open>The HTTP line source of deej (pkg/deej/http.go)\<close>

text \<open>
  The file defines \<open>HttpIO\<close>: a local HTTP endpoint that turns every \<open>POST /serial\<close>
  request into one line for the slider pipeline, a controller loop that consumes these
  lines, and a handler for configuration reloads.

  Conventions of the embedding.
  \<^item> A method with a pointer receiver takes the \<open>HttpIO\<close> value and returns the new one
    whenever it returns a state at all.
  \<^item> What a function does to the outside world (a log line, a send on a channel, an HTTP
    response, a \<open>go\<close> statement) is returned as a list of effects in program order. A send
    on an unbuffered channel blocks until it is received; the list is what the function
    performs when none of its sends blocks for ever.
  \<^item> \<open>make(chan T)\<close> takes the next unused channel identity from a counter that is
    passed along.
  \<^item> A panic is the left injection of a sum.
  \<^item> \<open>*Deej\<close> and \<open>*zap.SugaredLogger\<close> are references that are taken to be valid
    (not nil). The embedded \<open>SerialIO\<close> value of \<open>HttpIO\<close> only promotes methods; no
    function of this file reads or writes it, and the record leaves it out.
  \<^item> \<open>float32\<close> percentages are idealised as reals; no function of this file computes
    with them.
\<close>

subsection \<open>Channels, references, handles\<close>

type_synonym chan = nat

definition make_chan :: "nat \<Rightarrow> chan \<times> nat" where
  "make_chan next = (next, Suc next)"

datatype Deej = DeejRef nat

datatype Logger = Logger string

text \<open>\<open>logger.Named(name)\<close> of zap: the name is appended, separated by a period.\<close>

fun Named :: "Logger \<Rightarrow> string \<Rightarrow> Logger" where
  "Named (Logger n) name = Logger (if n = [] then name else n @ ''.'' @ name)"

text \<open>
  An \<open>io.ReadWriteCloser\<close>. The only method the file calls is \<open>Close\<close>; a handle is
  modelled by what its \<open>Close\<close> returns (\<open>None\<close> is the nil error).
\<close>

datatype Conn = Conn (Close: "string option")

datatype panic = NilPointerDereference

subsection \<open>Effects\<close>

datatype level = DebugLevel | InfoLevel | WarnLevel

text \<open>
  Modelled from the spec: the type \<open>SliderMoveEvent\<close> is declared outside this file; the
  spec gives it as the immutable value \<open>{sliderIndex: int, percentValue: float}\<close>.
\<close>

record SliderMoveEvent =
  sliderIndex :: int
  percentValue :: real

text \<open>The two JSON values the handler writes: a \<open>gin.H\<close> object and a string.\<close>

datatype json = H "(string \<times> string) list" | JsonString string

text \<open>
  The goroutines the file starts with \<open>go\<close>: the listener and the controller loop of
  \<open>Start\<close> (both close over the line channel of that call), the loop over the
  configuration-reload channel and the delayed reset it starts per notification.
\<close>

datatype goroutine =
    Listener chan
  | ControllerLoop chan
  | ReloadLoop chan
  | DelayedReset

datatype effect =
    Log level string
  | Logw level string string string
  | SendBool chan bool
  | SendString chan string
  | SendEvent chan SliderMoveEvent
  | JSON nat json
  | IndentedJSON nat json
  | Go goroutine

subsection \<open>The structs\<close>

text \<open>
  Modelled from the spec: the struct \<open>SerialIO\<close> is declared outside this file. Its
  fields are those the composite literal in \<open>handleLine\<close> names, and the two fields of the
  slider state (the recorded slider count and the stored percentages) that \<open>HttpIO\<close>
  mirrors.
\<close>

record SerialIO =
  deej :: Deej
  logger :: Logger
  stopChannel :: chan
  connected :: bool
  conn :: "Conn option"
  lastKnownNumSliders :: int
  currentSliderPercentValues :: "real list"
  sliderMoveConsumers :: "chan list"

record HttpIO =
  deej :: Deej
  logger :: Logger
  stopChannel :: chan
  connected :: bool
  conn :: "Conn option"
  lastKnownNumSliders :: int
  currentSliderPercentValues :: "real list"
  sliderMoveConsumers :: "chan list"

section \<open>The functions of the file\<close>

subsection \<open>Stop, SubscribeToSliderMoveEvents, close\<close>

definition Stop :: "HttpIO \<Rightarrow> HttpIO \<times> effect list" where
  "Stop hio =
     (if connected hio
      then (hio, [Log DebugLevel ''Shutting down Http connection'',
                  SendBool (stopChannel hio) True])
      else (hio, [Log DebugLevel ''Not currently connected, nothing to stop'']))"

definition SubscribeToSliderMoveEvents :: "HttpIO \<Rightarrow> nat \<Rightarrow> chan \<times> HttpIO \<times> nat" where
  "SubscribeToSliderMoveEvents hio next =
     (let (ch, next') = make_chan next
      in (ch, hio\<lparr>sliderMoveConsumers := sliderMoveConsumers hio @ [ch]\<rparr>, next'))"

text \<open>
  \<open>hio.conn.Close()\<close> is a method call on an interface value: on the nil interface it
  panics, before anything is logged or assigned.
\<close>

definition close :: "HttpIO \<Rightarrow> panic + HttpIO \<times> effect list" where
  "close hio =
     (case conn hio of
        None \<Rightarrow> Inl NilPointerDereference
      | Some c \<Rightarrow>
          Inr (hio\<lparr>conn := None, connected := False\<rparr>,
               (case Close c of
                  Some err \<Rightarrow> [Logw WarnLevel ''Failed to close HTTP connection'' ''error'' err]
                | None \<Rightarrow> [Log DebugLevel ''HTTP connection closed''])))"

subsection \<open>The handler of POST /serial\<close>

definition StatusBadRequest :: nat where
  "StatusBadRequest = 400"

definition StatusCreated :: nat where
  "StatusCreated = 201"

text \<open>
  \<open>handleSerialCommand\<close> is the closure of \<open>Start\<close>; it captures \<open>lineChannel\<close>. Its input
  is what \<open>c.GetRawData()\<close> returns: the bytes read and the error (\<open>None\<close> is nil).
  There is no \<open>return\<close> in the error branch, so the remaining statements follow it.
\<close>

definition handleSerialCommand :: "chan \<Rightarrow> string \<times> string option \<Rightarrow> effect list" where
  "handleSerialCommand lineChannel raw =
     (let (data, err) = raw;
          onErr = (if err \<noteq> None
                   then [JSON StatusBadRequest (H [(''error'', ''invalid data'')])]
                   else []);
          command = data
      in onErr @
         [SendString lineChannel command,
          IndentedJSON StatusCreated (JsonString (''Accepted serial command '' @ command))])"

subsection \<open>Start\<close>

text \<open>
  A gin engine, as far as the file uses it: the routes registered on it. \<open>gin.Default()\<close>
  has none.
\<close>

record Engine =
  routes :: "(string \<times> string \<times> (string \<times> string option \<Rightarrow> effect list)) list"

definition gin_Default :: Engine where
  "gin_Default = \<lparr>routes = []\<rparr>"

definition POST :: "string \<Rightarrow> (string \<times> string option \<Rightarrow> effect list) \<Rightarrow> Engine \<Rightarrow> Engine" where
  "POST path h router = router\<lparr>routes := routes router @ [(''POST'', path, h)]\<rparr>"

text \<open>
  The first goroutine of \<open>Start\<close>, up to the call of \<open>router.Run\<close>: what it logs, the
  engine it has built and the address it passes to \<open>Run\<close>.
\<close>

definition listener :: "chan \<Rightarrow> effect list \<times> Engine \<times> string" where
  "listener lineChannel =
     (let router = gin_Default;
          logged = [Log InfoLevel ''Starting server at localhost:6332/serial''];
          router = POST ''/serial'' (handleSerialCommand lineChannel) router
      in (logged, router, ''localhost:6332''))"

text \<open>The rest of that goroutine: \<open>router.Run\<close> has returned \<open>err\<close>.\<close>

definition listenerReturned :: "HttpIO \<Rightarrow> string option \<Rightarrow> HttpIO \<times> effect list" where
  "listenerReturned hio err = (if err \<noteq> None then Stop hio else (hio, []))"

definition Start :: "HttpIO \<Rightarrow> nat \<Rightarrow> string option \<times> HttpIO \<times> effect list \<times> nat" where
  "Start hio next =
     (let (lineChannel, next') = make_chan next
      in (None, hio, [Go (Listener lineChannel), Go (ControllerLoop lineChannel)], next'))"

subsection \<open>handleLine\<close>

text \<open>
  \<open>SerialIO.handleLine\<close> is defined outside this file, so \<open>handleLine\<close> takes it as the
  parameter \<open>sioHandleLine\<close>: a function of the receiver it is called on, the logger and
  the line, returning the receiver as it leaves it and the effects. The composite literal
  names six fields; the other two get their zero values. The struct \<open>sio\<close> is local to the
  call and is dropped when it returns.
\<close>

definition CRLF :: string where
  "CRLF = [CHR 0x0D, CHR 0x0A]"

definition handleLine ::
  "(SerialIO \<Rightarrow> Logger \<Rightarrow> string \<Rightarrow> SerialIO \<times> effect list) \<Rightarrow>
   HttpIO \<Rightarrow> Logger \<Rightarrow> string \<Rightarrow> HttpIO \<times> effect list" where
  "handleLine sioHandleLine hio lg line =
     (let sio = \<lparr>SerialIO.deej = deej hio,
                 SerialIO.logger = logger hio,
                 SerialIO.stopChannel = stopChannel hio,
                 SerialIO.connected = connected hio,
                 SerialIO.conn = conn hio,
                 SerialIO.lastKnownNumSliders = 0,
                 SerialIO.currentSliderPercentValues = [],
                 SerialIO.sliderMoveConsumers = sliderMoveConsumers hio\<rparr>;
          (sio', effects) = sioHandleLine sio lg (line @ CRLF)
      in (hio, effects))"

subsection \<open>The reload handler\<close>

text \<open>\<open>time.Duration\<close> counts nanoseconds.\<close>

definition Millisecond :: nat where
  "Millisecond = 1000000"

definition stopDelay :: nat where
  "stopDelay = 50 * Millisecond"

text \<open>
  Modelled from the spec: \<open>config.SubscribeToChanges\<close> is defined outside this file; it
  hands out the channel on which one notification per reload arrives.
\<close>

definition SubscribeToChanges :: "Deej \<Rightarrow> nat \<Rightarrow> chan \<times> nat" where
  "SubscribeToChanges d next = make_chan next"

definition setupOnConfigReload :: "HttpIO \<Rightarrow> nat \<Rightarrow> HttpIO \<times> effect list \<times> nat" where
  "setupOnConfigReload hio next =
     (let (configReloadedChannel, next') = SubscribeToChanges (deej hio) next
      in (hio, [Go (ReloadLoop configReloadedChannel)], next'))"

text \<open>The body of the loop over the reload channel, run once per notification.\<close>

definition onConfigReloaded :: "effect list" where
  "onConfigReloaded = [Go DelayedReset]"

text \<open>
  The delayed goroutine: it waits on \<open>time.After(stopDelay)\<close>, which delivers no earlier
  than \<open>stopDelay\<close> after the call, and then assigns the field.
\<close>

definition delayedResetWakes :: "nat \<Rightarrow> nat" where
  "delayedResetWakes now = now + stopDelay"

definition delayedReset :: "HttpIO \<Rightarrow> HttpIO" where
  "delayedReset hio = hio\<lparr>lastKnownNumSliders := 0\<rparr>"

subsection \<open>NewHttpIO\<close>

definition NewHttpIO :: "Deej \<Rightarrow> Logger \<Rightarrow> nat \<Rightarrow> (HttpIO \<times> string option) \<times> effect list \<times> nat" where
  "NewHttpIO d lg0 next =
     (let lg = Named lg0 ''http'';
          (stop, next1) = make_chan next;
          hio = \<lparr>deej = d, logger = lg, stopChannel = stop, connected = False, conn = None,
                 lastKnownNumSliders = 0, currentSliderPercentValues = [],
                 sliderMoveConsumers = []\<rparr>;
          created = [Log DebugLevel ''Created HTTP i/o instance''];
          (hio, spawned, next2) = setupOnConfigReload hio next1
      in ((hio, None), created @ spawned, next2))"

section \<open>The slider pipeline behind handleLine\<close>

text \<open>
  Modelled from the spec: \<open>SerialIO.handleLine\<close> is defined outside this file. The spec
  describes it as the parser, the \<open>Diff\<close> of the slider state tracker and the
  \<open>Publish\<close> of the event dispatcher: a line is a sequence of numeric fields separated by
  \<open>|\<close> and ended by the line terminator; an empty line or a non-numeric field is a
  \<open>MalformedLineError\<close>, which is logged and drops the line; when the number of fields
  differs from the recorded slider count every slider is reported, otherwise those whose
  reading differs from the stored one by more than the tolerance; the latest readings are
  stored either way; events come in ascending slider order and each is sent to every
  registered channel. Fields are read as unsigned decimal integers, as in the lines of
  the spec's scenario.
\<close>

datatype MalformedLineError = MalformedLineError

definition isDigit :: "char \<Rightarrow> bool" where
  "isDigit c = (48 \<le> (of_char c :: nat) \<and> (of_char c :: nat) \<le> 57)"

fun allDigits :: "string \<Rightarrow> bool" where
  "allDigits [] = True"
| "allDigits (c # cs) = (isDigit c \<and> allDigits cs)"

definition parseField :: "string \<Rightarrow> real option" where
  "parseField s =
     (if s \<noteq> [] \<and> allDigits s
      then Some (real (foldl (\<lambda>n c. 10 * n + (of_char c - 48)) 0 s))
      else None)"

fun splitFields :: "string \<Rightarrow> string list" where
  "splitFields [] = [[]]"
| "splitFields (c # cs) =
     (if c = CHR ''|'' then [] # splitFields cs
      else (case splitFields cs of
              [] \<Rightarrow> [[c]]
            | w # ws \<Rightarrow> (c # w) # ws))"

definition stripTerminator :: "string \<Rightarrow> string" where
  "stripTerminator line =
     (if length CRLF \<le> length line \<and> drop (length line - length CRLF) line = CRLF
      then take (length line - length CRLF) line
      else line)"

fun parseFields :: "string list \<Rightarrow> MalformedLineError + real list" where
  "parseFields [] = Inr []"
| "parseFields (f # fs) =
     (case parseField f of
        None \<Rightarrow> Inl MalformedLineError
      | Some v \<Rightarrow>
          (case parseFields fs of
             Inl e \<Rightarrow> Inl e
           | Inr vs \<Rightarrow> Inr (v # vs)))"

definition parseLine :: "string \<Rightarrow> MalformedLineError + real list" where
  "parseLine line =
     (let body = stripTerminator line
      in if body = [] then Inl MalformedLineError else parseFields (splitFields body))"

fun changed :: "real \<Rightarrow> nat \<Rightarrow> real list \<Rightarrow> real list \<Rightarrow> SliderMoveEvent list" where
  "changed tolerance i (v # vs) (old # olds) =
     (if \<bar>v - old\<bar> > tolerance
      then \<lparr>sliderIndex = int i, percentValue = v\<rparr> # changed tolerance (Suc i) vs olds
      else changed tolerance (Suc i) vs olds)"
| "changed tolerance i vs olds = []"

fun allChanged :: "nat \<Rightarrow> real list \<Rightarrow> SliderMoveEvent list" where
  "allChanged i [] = []"
| "allChanged i (v # vs) = \<lparr>sliderIndex = int i, percentValue = v\<rparr> # allChanged (Suc i) vs"

definition Diff :: "real \<Rightarrow> int \<times> real list \<Rightarrow> real list \<Rightarrow> (int \<times> real list) \<times> SliderMoveEvent list" where
  "Diff tolerance state readings =
     (let (count, stored) = state;
          n = int (length readings)
      in if n \<noteq> count then ((n, readings), allChanged 0 readings)
         else ((n, readings), changed tolerance 0 readings stored))"

definition Publish :: "chan list \<Rightarrow> SliderMoveEvent \<Rightarrow> effect list" where
  "Publish consumers ev = map (\<lambda>ch. SendEvent ch ev) consumers"

definition SerialIO_handleLine :: "real \<Rightarrow> SerialIO \<Rightarrow> Logger \<Rightarrow> string \<Rightarrow> SerialIO \<times> effect list" where
  "SerialIO_handleLine tolerance sio lg line =
     (case parseLine line of
        Inl e \<Rightarrow> (sio, [Log DebugLevel ''MalformedLineError''])
      | Inr readings \<Rightarrow>
          (let ((n, stored), events) =
                 Diff tolerance (SerialIO.lastKnownNumSliders sio,
                                 SerialIO.currentSliderPercentValues sio) readings
           in (sio\<lparr>SerialIO.lastKnownNumSliders := n,
                    SerialIO.currentSliderPercentValues := stored\<rparr>,
               concat (map (Publish (SerialIO.sliderMoveConsumers sio)) events))))"

section \<open>The running bridge\<close>

text \<open>
  The goroutines of the file run concurrently around one \<open>HttpIO\<close>. The system below
  holds that value together with the goroutines that exist, and moves by events: a call of
  an exported method, or a step of one goroutine. It keeps
  \<^item> the line channel of every listener and of every controller loop that \<open>Start\<close> has
    launched, and the channel every reload loop ranges over;
  \<^item> for every delayed reset that waits on its timer, the time at which the timer
    delivers;
  \<^item> the number of callers blocked in the send \<open>hio.stopChannel <- true\<close>;
  \<^item> how often \<open>close\<close> has completed, how many delayed resets have fired, everything
    that was logged, sent or started so far, and whether a goroutine has panicked (which
    ends the process).
\<close>

record System =
  hio :: HttpIO
  nextChan :: nat
  clock :: nat
  listeners :: "chan list"
  controllers :: "chan list"
  reloaders :: "chan list"
  timers :: "nat list"
  stopSenders :: nat
  teardowns :: nat
  resets :: nat
  trace :: "effect list"
  crashed :: bool

text \<open>What an effect of one of the file's functions does to the system.\<close>

fun perform :: "System \<Rightarrow> effect \<Rightarrow> System" where
  "perform s (Go (Listener ch)) = s\<lparr>listeners := listeners s @ [ch], trace := trace s @ [Go (Listener ch)]\<rparr>"
| "perform s (Go (ControllerLoop ch)) = s\<lparr>controllers := controllers s @ [ch], trace := trace s @ [Go (ControllerLoop ch)]\<rparr>"
| "perform s (Go (ReloadLoop ch)) = s\<lparr>reloaders := reloaders s @ [ch], trace := trace s @ [Go (ReloadLoop ch)]\<rparr>"
| "perform s (Go DelayedReset) = s\<lparr>timers := timers s @ [delayedResetWakes (clock s)], trace := trace s @ [Go DelayedReset]\<rparr>"
| "perform s (SendBool ch b) = s\<lparr>stopSenders := Suc (stopSenders s), trace := trace s @ [SendBool ch b]\<rparr>"
| "perform s e = s\<lparr>trace := trace s @ [e]\<rparr>"

definition performs :: "System \<Rightarrow> effect list \<Rightarrow> System" where
  "performs s es = foldl perform s es"

definition remove_nth :: "nat \<Rightarrow> 'a list \<Rightarrow> 'a list" where
  "remove_nth i xs = take i xs @ drop (Suc i) xs"

datatype event =
    CallStart
  | CallStop
  | CallSubscribe
  | RunReturns nat "string option"
  | ReceiveStop nat
  | ReceiveLine nat string
  | ConfigReloaded
  | Elapse nat
  | ResetFires nat

text \<open>
  One event, in a process that is still alive. An event that is not enabled (a goroutine
  that does not exist, a receive with no sender, a timer that has not delivered) leaves
  the system as it is.
  \<^item> \<open>RunReturns i err\<close>: \<open>router.Run\<close> of the \<open>i\<close>-th listener returns \<open>err\<close>; the goroutine
    runs its last statement and ends.
  \<^item> \<open>ReceiveStop i\<close>: the \<open>select\<close> of the \<open>i\<close>-th controller loop takes a value from the
    stop channel, which needs a blocked sender, and calls \<open>close\<close>.
  \<^item> \<open>ReceiveLine i line\<close>: that \<open>select\<close> takes \<open>line\<close> from its line channel and calls
    \<open>handleLine\<close>. What \<open>SerialIO.handleLine\<close> logs and sends is appended to the trace as it is.
  \<^item> \<open>ConfigReloaded\<close>: the reload loop receives a notification.
  \<^item> \<open>ResetFires i\<close>: the timer of the \<open>i\<close>-th waiting delayed reset has delivered and the
    goroutine runs its assignment and ends.
\<close>

fun act ::
  "(SerialIO \<Rightarrow> Logger \<Rightarrow> string \<Rightarrow> SerialIO \<times> effect list) \<Rightarrow> System \<Rightarrow> event \<Rightarrow> System" where
  "act P s CallStart =
     (let (err, h, es, n) = Start (hio s) (nextChan s)
      in performs (s\<lparr>hio := h, nextChan := n\<rparr>) es)"
| "act P s CallStop =
     (let (h, es) = Stop (hio s) in performs (s\<lparr>hio := h\<rparr>) es)"
| "act P s CallSubscribe =
     (let (ch, h, n) = SubscribeToSliderMoveEvents (hio s) (nextChan s)
      in s\<lparr>hio := h, nextChan := n\<rparr>)"
| "act P s (RunReturns i err) =
     (if i < length (listeners s)
      then (let (h, es) = listenerReturned (hio s) err
            in performs (s\<lparr>hio := h, listeners := remove_nth i (listeners s)\<rparr>) es)
      else s)"
| "act P s (ReceiveStop i) =
     (if i < length (controllers s) \<and> 0 < stopSenders s
      then (case close (hio s) of
              Inl p \<Rightarrow> s\<lparr>stopSenders := stopSenders s - 1, crashed := True\<rparr>
            | Inr (h, es) \<Rightarrow>
                performs (s\<lparr>hio := h, stopSenders := stopSenders s - 1,
                            teardowns := Suc (teardowns s)\<rparr>) es)
      else s)"
| "act P s (ReceiveLine i line) =
     (if i < length (controllers s)
      then (let (h, es) = handleLine P (hio s) (logger (hio s)) line
            in s\<lparr>hio := h, trace := trace s @ es\<rparr>)
      else s)"
| "act P s ConfigReloaded =
     (if reloaders s \<noteq> [] then performs s onConfigReloaded else s)"
| "act P s (Elapse d) = s\<lparr>clock := clock s + d\<rparr>"
| "act P s (ResetFires i) =
     (if i < length (timers s) \<and> timers s ! i \<le> clock s
      then s\<lparr>hio := delayedReset (hio s), timers := remove_nth i (timers s),
             resets := Suc (resets s)\<rparr>
      else s)"

definition step ::
  "(SerialIO \<Rightarrow> Logger \<Rightarrow> string \<Rightarrow> SerialIO \<times> effect list) \<Rightarrow> System \<Rightarrow> event \<Rightarrow> System" where
  "step P s e = (if crashed s then s else act P s e)"

definition run ::
  "(SerialIO \<Rightarrow> Logger \<Rightarrow> string \<Rightarrow> SerialIO \<times> effect list) \<Rightarrow> System \<Rightarrow> event list \<Rightarrow> System" where
  "run P s es = foldl (step P) s es"

text \<open>The system right after \<open>NewHttpIO\<close> has returned, at time 0.\<close>

definition boot :: "Deej \<Rightarrow> Logger \<Rightarrow> System" where
  "boot d lg =
     (let ((h, err), es, n) = NewHttpIO d lg 0
      in performs \<lparr>hio = h, nextChan = n, clock = 0, listeners = [], controllers = [],
                    reloaders = [], timers = [], stopSenders = 0, teardowns = 0,
                    resets = 0, trace = [], crashed = False\<rparr> es)"

text \<open>
  What holds of the system at every moment (shown below): no goroutine has panicked, the
  bridge is not connected and holds no handle, nobody is blocked on the stop channel,
  \<open>close\<close> has never run, and the reload loop exists.
\<close>

definition safe :: "System \<Rightarrow> bool" where
  "safe s = (\<not> crashed s \<and> \<not> connected (hio s) \<and> conn (hio s) = None \<and>
             stopSenders s = 0 \<and> teardowns s = 0 \<and> reloaders s \<noteq> [])"

section \<open>Properties\<close>

subsection \<open>Auxiliary facts\<close>

lemma handleLine_state: "fst (handleLine P h lg line) = h"
  by (simp add: handleLine_def split: prod.splits)

lemma remove_nth_length: "i < length xs \<Longrightarrow> length (remove_nth i xs) = length xs - 1"
  by (simp add: remove_nth_def)

lemma safe_boot: "safe (boot d lg)"
  by (simp add: safe_def boot_def NewHttpIO_def setupOnConfigReload_def SubscribeToChanges_def
      make_chan_def performs_def)

lemma safe_act: "safe s \<Longrightarrow> safe (act P s e)"
proof (cases e)
  case CallStart
  assume "safe s"
  then show ?thesis using CallStart
    by (simp add: safe_def Start_def make_chan_def performs_def)
next
  case CallStop
  assume "safe s"
  then show ?thesis using CallStop
    by (simp add: safe_def Stop_def performs_def)
next
  case CallSubscribe
  assume "safe s"
  then show ?thesis using CallSubscribe
    by (simp add: safe_def SubscribeToSliderMoveEvents_def make_chan_def)
next
  case (RunReturns i err)
  assume "safe s"
  then show ?thesis using RunReturns
    by (simp add: safe_def listenerReturned_def Stop_def performs_def)
next
  case (ReceiveStop i)
  assume "safe s"
  then show ?thesis using ReceiveStop
    by (simp add: safe_def)
next
  case (ReceiveLine i line)
  assume "safe s"
  then show ?thesis using ReceiveLine handleLine_state [of P "hio s" "logger (hio s)" line]
    by (auto simp add: safe_def split: prod.splits)
next
  case ConfigReloaded
  assume "safe s"
  then show ?thesis using ConfigReloaded
    by (simp add: safe_def onConfigReloaded_def performs_def)
next
  case (Elapse d)
  assume "safe s"
  then show ?thesis using Elapse
    by (simp add: safe_def)
next
  case (ResetFires i)
  assume "safe s"
  then show ?thesis using ResetFires
    by (simp add: safe_def delayedReset_def)
qed

lemma safe_step: "safe s \<Longrightarrow> safe (step P s e)"
  by (simp add: step_def safe_act)

lemma run_snoc: "run P s (es @ [e]) = step P (run P s es) e"
  by (simp add: run_def)

lemma safe_run: "safe s \<Longrightarrow> safe (run P s es)"
  by (induction es rule: rev_induct) (simp_all add: run_def safe_step)

lemma safe_reached: "safe (run P (boot d lg) es)"
  by (rule safe_run [OF safe_boot])

text \<open>
  Every event keeps the number of delayed resets that wait or have fired, except a reload
  notification, which adds one.
\<close>

lemma pending_act:
  "safe s \<Longrightarrow>
   length (timers (act P s e)) + resets (act P s e) =
   length (timers s) + resets s + (if e = ConfigReloaded then 1 else 0)"
proof (cases e)
  case CallStart
  then show ?thesis by (simp add: Start_def make_chan_def performs_def)
next
  case CallStop
  assume "safe s"
  then show ?thesis using CallStop by (simp add: safe_def Stop_def performs_def)
next
  case CallSubscribe
  then show ?thesis by (simp add: SubscribeToSliderMoveEvents_def make_chan_def)
next
  case (RunReturns i err)
  assume "safe s"
  then show ?thesis using RunReturns
    by (simp add: safe_def listenerReturned_def Stop_def performs_def)
next
  case (ReceiveStop i)
  assume "safe s"
  then show ?thesis using ReceiveStop by (simp add: safe_def)
next
  case (ReceiveLine i line)
  then show ?thesis by (simp split: prod.splits)
next
  case ConfigReloaded
  assume "safe s"
  then show ?thesis using ConfigReloaded
    by (simp add: safe_def onConfigReloaded_def performs_def)
next
  case (Elapse d)
  then show ?thesis by simp
next
  case (ResetFires i)
  then show ?thesis by (auto simp add: remove_nth_length)
qed

lemma pending_run:
  "length (timers (run P (boot d lg) es)) + resets (run P (boot d lg) es) =
   count_list es ConfigReloaded"
proof (induction es rule: rev_induct)
  case Nil
  show ?case
    by (simp add: run_def boot_def NewHttpIO_def setupOnConfigReload_def SubscribeToChanges_def
        make_chan_def performs_def)
next
  case (snoc e es)
  have s: "safe (run P (boot d lg) es)"
    by (rule safe_reached)
  then have "\<not> crashed (run P (boot d lg) es)"
    by (simp add: safe_def)
  with pending_act [OF s, of P e] snoc show ?case
    by (simp add: run_snoc step_def)
qed

lemma timers_kept:
  assumes "\<And>i. e \<noteq> ResetFires i"
  shows "take (length (timers s)) (timers (act P s e)) = timers s"
proof (cases e)
  case CallStart
  then show ?thesis by (simp add: Start_def make_chan_def performs_def)
next
  case CallStop
  then show ?thesis by (simp add: Stop_def performs_def)
next
  case CallSubscribe
  then show ?thesis by (simp add: SubscribeToSliderMoveEvents_def make_chan_def)
next
  case (RunReturns i err)
  then show ?thesis
    by (simp add: listenerReturned_def Stop_def performs_def)
next
  case (ReceiveStop i)
  then show ?thesis
    by (simp add: close_def performs_def split: option.splits)
next
  case (ReceiveLine i line)
  then show ?thesis by (simp split: prod.splits)
next
  case ConfigReloaded
  then show ?thesis by (simp add: onConfigReloaded_def performs_def)
next
  case (Elapse d)
  then show ?thesis by simp
next
  case (ResetFires i)
  with assms [of i] show ?thesis by blast
qed

text \<open>The system after \<open>NewHttpIO (DeejRef 0) (Logger ''deej'')\<close>, written out.\<close>

lemma boot_eval:
  "boot (DeejRef 0) (Logger ''deej'') =
     \<lparr>hio = \<lparr>deej = DeejRef 0, logger = Logger ''deej.http'', stopChannel = 0,
              connected = False, conn = None, lastKnownNumSliders = 0,
              currentSliderPercentValues = [], sliderMoveConsumers = []\<rparr>,
      nextChan = 2, clock = 0, listeners = [], controllers = [], reloaders = [1], timers = [],
      stopSenders = 0, teardowns = 0, resets = 0,
      trace = [Log DebugLevel ''Created HTTP i/o instance'', Go (ReloadLoop 1)],
      crashed = False\<rparr>"
  by (simp add: boot_def NewHttpIO_def setupOnConfigReload_def SubscribeToChanges_def
      make_chan_def performs_def)

text \<open>
  Whatever \<open>SerialIO.handleLine\<close> does, \<open>handleLine\<close> hands it a receiver built from six
  fields of \<open>hio\<close> and returns \<open>hio\<close> as it was: what is sent for a line depends on the
  line, the subscribers and the connection fields only.
\<close>

lemma handleLine_forgets:
  "handleLine P h lg line =
     (h, snd (P \<lparr>SerialIO.deej = deej h, SerialIO.logger = logger h,
                 SerialIO.stopChannel = stopChannel h, SerialIO.connected = connected h,
                 SerialIO.conn = conn h, SerialIO.lastKnownNumSliders = 0,
                 SerialIO.currentSliderPercentValues = [],
                 SerialIO.sliderMoveConsumers = sliderMoveConsumers h\<rparr> lg (line @ CRLF)))"
  by (simp add: handleLine_def split: prod.splits)

subsection \<open>C1: a request whose body cannot be read\<close>

text \<open>
  Claim C1: for a \<open>POST /serial\<close> request whose body cannot be read, the endpoint answers
  400 with \<open>{"error": "invalid data"}\<close>, enqueues no command on the line channel and writes
  no 201 response. The handler does write the 400 response, but its error branch does not
  return: for every error and whatever bytes were read, it goes on to send them as a
  command on the line channel and to write the 201 acknowledgement.
\<close>

theorem handleSerialCommand_unreadable_body:
  "handleSerialCommand lineChannel (data, Some err) =
     [JSON 400 (H [(''error'', ''invalid data'')]),
      SendString lineChannel data,
      IndentedJSON 201 (JsonString (''Accepted serial command '' @ data))]"
  by (simp add: handleSerialCommand_def StatusBadRequest_def StatusCreated_def)

subsection \<open>C2: the lifecycle and the teardown path\<close>



subsection \<open>C3: slider state across lines\<close>

text \<open>
  Claim C3: the slider state persists across lines, so the second of two identical lines
  emits no event. In \<open>handleLine\<close> the slider count and the stored percentages are
  neither copied into the \<open>SerialIO\<close> that processes the line nor copied back, so every
  line is diffed against the empty state. With one subscriber, the line \<open>100|50|0\<close> sends
  three events, the same line again sends the same three, and the \<open>HttpIO\<close> still records
  no slider.
\<close>

theorem handleLine_repeats_events:
  "(let lg = Logger ''deej'';
        h0 = fst (fst (NewHttpIO (DeejRef 0) lg 0));
        (ch, h1, n) = SubscribeToSliderMoveEvents h0 2;
        (h2, first) = handleLine (SerialIO_handleLine tolerance) h1 lg ''100|50|0'';
        (h3, second) = handleLine (SerialIO_handleLine tolerance) h2 lg ''100|50|0''
    in first = [SendEvent ch \<lparr>sliderIndex = 0, percentValue = 100\<rparr>,
                SendEvent ch \<lparr>sliderIndex = 1, percentValue = 50\<rparr>,
                SendEvent ch \<lparr>sliderIndex = 2, percentValue = 0\<rparr>]
       \<and> second = first
       \<and> lastKnownNumSliders h2 = 0 \<and> currentSliderPercentValues h2 = []
       \<and> h3 = h1)"
  by (simp add: NewHttpIO_def setupOnConfigReload_def SubscribeToChanges_def make_chan_def
      SubscribeToSliderMoveEvents_def handleLine_def SerialIO_handleLine_def parseLine_def
      stripTerminator_def CRLF_def parseField_def isDigit_def Diff_def Publish_def)

subsection \<open>C4: one delayed reset per reload notification\<close>

text \<open>
  Claim C4: every reload notification starts a delayed task of its own that, after the
  fixed delay of 50 ms, sets the recorded slider count to zero; tasks of overlapping
  reloads are neither cancelled nor coalesced. For any state \<open>s\<close> of the system, reachable
  or not, and whatever count it records: the delay is 50 ms in nanoseconds; in a live
  process with a reload loop a notification starts exactly one goroutine, whose timer
  delivers \<open>stopDelay\<close> after the present time, keeps the waiting ones and writes nothing
  itself; a task whose time has come replaces the recorded count by zero, changes no
  other field, and only then leaves the waiting list; before its time it cannot run; and
  no other event removes a waiting task. In every state \<open>r\<close> reached from \<open>NewHttpIO\<close> the
  process is alive and the reload loop exists, so each notification does start its
  task, and the tasks that wait or have fired are as many as the notifications so far.
\<close>

theorem reload_schedules_reset:
  "stopDelay = 50 * 1000000
   \<and> onConfigReloaded = [Go DelayedReset]
   \<and> (\<not> crashed s \<and> reloaders s \<noteq> [] \<longrightarrow>
         timers (step P s ConfigReloaded) = timers s @ [clock s + stopDelay]
         \<and> hio (step P s ConfigReloaded) = hio s)
   \<and> (\<forall>i. \<not> crashed s \<and> i < length (timers s) \<and> timers s ! i \<le> clock s \<longrightarrow>
          hio (step P s (ResetFires i)) = (hio s)\<lparr>lastKnownNumSliders := 0\<rparr>
          \<and> lastKnownNumSliders (hio (step P s (ResetFires i))) = 0
          \<and> timers (step P s (ResetFires i)) = remove_nth i (timers s)
          \<and> resets (step P s (ResetFires i)) = Suc (resets s))
   \<and> (\<forall>i. i < length (timers s) \<and> clock s < timers s ! i \<longrightarrow>
          step P s (ResetFires i) = s)
   \<and> (\<forall>e. (\<forall>i. e \<noteq> ResetFires i) \<longrightarrow>
          take (length (timers s)) (timers (step P s e)) = timers s)
   \<and> (let r = run P (boot d lg) es in
         \<not> crashed r \<and> reloaders r \<noteq> []
         \<and> timers (step P r ConfigReloaded) = timers r @ [clock r + stopDelay]
         \<and> length (timers r) + resets r = count_list es ConfigReloaded)"
proof -
  have delay: "stopDelay = 50 * 1000000"
    by (simp add: stopDelay_def Millisecond_def)
  have body: "onConfigReloaded = [Go DelayedReset]"
    by (simp add: onConfigReloaded_def)
  have spawn: "\<And>u. \<not> crashed u \<and> reloaders u \<noteq> [] \<longrightarrow>
      timers (step P u ConfigReloaded) = timers u @ [clock u + stopDelay]
      \<and> hio (step P u ConfigReloaded) = hio u"
    by (simp add: step_def onConfigReloaded_def performs_def delayedResetWakes_def)
  have fire: "\<forall>i. \<not> crashed s \<and> i < length (timers s) \<and> timers s ! i \<le> clock s \<longrightarrow>
      hio (step P s (ResetFires i)) = (hio s)\<lparr>lastKnownNumSliders := 0\<rparr>
      \<and> lastKnownNumSliders (hio (step P s (ResetFires i))) = 0
      \<and> timers (step P s (ResetFires i)) = remove_nth i (timers s)
      \<and> resets (step P s (ResetFires i)) = Suc (resets s)"
    by (simp add: step_def delayedReset_def)
  have early: "\<forall>i. i < length (timers s) \<and> clock s < timers s ! i \<longrightarrow>
      step P s (ResetFires i) = s"
    by (simp add: step_def)
  have kept: "\<forall>e. (\<forall>i. e \<noteq> ResetFires i) \<longrightarrow>
      take (length (timers s)) (timers (step P s e)) = timers s"
    using timers_kept [of _ s P] by (simp add: step_def)
  define r where "r = run P (boot d lg) es"
  have "safe r"
    unfolding r_def by (rule safe_reached)
  then have alive: "\<not> crashed r" and loop: "reloaders r \<noteq> []"
    by (simp_all add: safe_def)
  have count: "length (timers r) + resets r = count_list es ConfigReloaded"
    unfolding r_def by (rule pending_run)
  from spawn [of r] alive loop
  have spawn_r: "timers (step P r ConfigReloaded) = timers r @ [clock r + stopDelay]"
    by blast
  from alive loop spawn_r count
  have reach: "let r = run P (boot d lg) es in
      \<not> crashed r \<and> reloaders r \<noteq> []
      \<and> timers (step P r ConfigReloaded) = timers r @ [clock r + stopDelay]
      \<and> length (timers r) + resets r = count_list es ConfigReloaded"
    unfolding Let_def r_def by blast
  from delay body spawn [of s] fire early kept reach show ?thesis
    by blast
qed

text \<open>
  A state that records three sliders, with two tasks due at 50 ms and 70 ms and the
  clock at 50 ms: the first task can fire and turns the count from 3 into 0, the second
  cannot fire yet, a further notification adds a third task due at 100 ms. Such a state
  arises from two reloads 20 ms apart followed by 30 ms.
\<close>

theorem reload_schedules_reset_witness:
  "(let P = (\<lambda>sio lg line. (sio, []));
        s = \<lparr>hio = \<lparr>deej = DeejRef 0, logger = Logger ''deej.http'', stopChannel = 0,
                     connected = False, conn = None, lastKnownNumSliders = 3,
                     currentSliderPercentValues = [100, 50, 0], sliderMoveConsumers = [2]\<rparr>,
             nextChan = 4, clock = 50000000, listeners = [3], controllers = [3],
             reloaders = [1], timers = [50000000, 70000000], stopSenders = 0, teardowns = 0,
             resets = 0, trace = [], crashed = False\<rparr>;
        r = run P (boot (DeejRef 0) (Logger ''deej''))
              [ConfigReloaded, Elapse 20000000, ConfigReloaded, Elapse 30000000]
    in lastKnownNumSliders (hio s) = 3
       \<and> lastKnownNumSliders (hio (step P s (ResetFires 0))) = 0
       \<and> currentSliderPercentValues (hio (step P s (ResetFires 0))) = [100, 50, 0]
       \<and> timers (step P s (ResetFires 0)) = [70000000]
       \<and> resets (step P s (ResetFires 0)) = 1
       \<and> step P s (ResetFires 1) = s
       \<and> timers (step P s ConfigReloaded) = [50000000, 70000000, 100000000]
       \<and> take 2 (timers (step P s CallStop)) = [50000000, 70000000]
       \<and> timers r = [50000000, 70000000] \<and> resets r = 0
       \<and> timers (step P r ConfigReloaded) = [50000000, 70000000, 100000000])"
proof -
  let ?P = "\<lambda>(sio :: SerialIO) (lg :: Logger) (line :: string). (sio, [] :: effect list)"
  let ?s = "\<lparr>hio = \<lparr>deej = DeejRef 0, logger = Logger ''deej.http'', stopChannel = 0,
                     connected = False, conn = None, lastKnownNumSliders = 3,
                     currentSliderPercentValues = [100, 50, 0], sliderMoveConsumers = [2]\<rparr>,
             nextChan = 4, clock = 50000000, listeners = [3], controllers = [3],
             reloaders = [1], timers = [50000000, 70000000], stopSenders = 0, teardowns = 0,
             resets = 0, trace = [], crashed = False\<rparr>"
  let ?es = "[ConfigReloaded, Elapse 20000000, ConfigReloaded, Elapse 30000000]"
  let ?r = "run ?P (boot (DeejRef 0) (Logger ''deej'')) ?es"
  note T = reload_schedules_reset [of ?s ?P "DeejRef 0" "Logger ''deej''" ?es, unfolded Let_def]
  have before: "lastKnownNumSliders (hio ?s) = 3"
    by simp
  from T have "\<not> crashed ?s \<and> 0 < length (timers ?s) \<and> timers ?s ! 0 \<le> clock ?s \<longrightarrow>
      hio (step ?P ?s (ResetFires 0)) = (hio ?s)\<lparr>lastKnownNumSliders := 0\<rparr>
      \<and> timers (step ?P ?s (ResetFires 0)) = remove_nth 0 (timers ?s)
      \<and> resets (step ?P ?s (ResetFires 0)) = Suc (resets ?s)"
    by blast
  then have fire: "lastKnownNumSliders (hio (step ?P ?s (ResetFires 0))) = 0
      \<and> currentSliderPercentValues (hio (step ?P ?s (ResetFires 0))) = [100, 50, 0]
      \<and> timers (step ?P ?s (ResetFires 0)) = [70000000]
      \<and> resets (step ?P ?s (ResetFires 0)) = 1"
    by (simp add: remove_nth_def)
  from T have "1 < length (timers ?s) \<and> clock ?s < timers ?s ! 1 \<longrightarrow>
      step ?P ?s (ResetFires 1) = ?s"
    by blast
  then have early: "step ?P ?s (ResetFires 1) = ?s"
    by simp
  from T have "\<not> crashed ?s \<and> reloaders ?s \<noteq> [] \<longrightarrow>
      timers (step ?P ?s ConfigReloaded) = timers ?s @ [clock ?s + stopDelay]"
    by blast
  then have spawn: "timers (step ?P ?s ConfigReloaded) = [50000000, 70000000, 100000000]"
    by (simp add: stopDelay_def Millisecond_def)
  from T have "(\<forall>i. CallStop \<noteq> ResetFires i) \<longrightarrow>
      take (length (timers ?s)) (timers (step ?P ?s CallStop)) = timers ?s"
    by blast
  then have kept: "take 2 (timers (step ?P ?s CallStop)) = [50000000, 70000000]"
    by (simp add: numeral_2_eq_2)
  have t: "timers ?r = [50000000, 70000000]"
    by (simp add: boot_eval run_def step_def onConfigReloaded_def performs_def
        delayedResetWakes_def stopDelay_def Millisecond_def)
  have c: "clock ?r = 50000000"
    by (simp add: boot_eval run_def step_def onConfigReloaded_def performs_def
        delayedResetWakes_def stopDelay_def Millisecond_def)
  from T have "length (timers ?r) + resets ?r = count_list ?es ConfigReloaded"
    by blast
  then have fired: "resets ?r = 0"
    by (simp add: t)
  from T have "timers (step ?P ?r ConfigReloaded) = timers ?r @ [clock ?r + stopDelay]"
    by blast
  then have spawn_r: "timers (step ?P ?r ConfigReloaded) = [50000000, 70000000, 100000000]"
    by (simp add: t c stopDelay_def Millisecond_def)
  from before fire early spawn kept t fired spawn_r show ?thesis
    unfolding Let_def by blast
qed

subsection \<open>C6: a request whose body is read\<close>

text \<open>
  Claim C6: when the body is read without error, the whole body is sent once, unchanged,
  as one command on the line channel, and the response is 201 with a JSON string that
  echoes the command. The line channel is the one \<open>Start\<close> made for this listener and its
  controller loop, and the handler is the one the listener registers.
\<close>

theorem handleSerialCommand_readable_body:
  "handleSerialCommand lineChannel (data, None) =
     [SendString lineChannel data,
      IndentedJSON 201 (JsonString (''Accepted serial command '' @ data))]
   \<and> Start h next = (None, h, [Go (Listener next), Go (ControllerLoop next)], Suc next)
   \<and> routes (fst (snd (listener next))) = [(''POST'', ''/serial'', handleSerialCommand next)]"
  by (simp add: handleSerialCommand_def StatusCreated_def Start_def make_chan_def listener_def
      POST_def gin_Default_def)

subsection \<open>C7: Stop while not connected\<close>

text \<open>
  Claim C7: \<open>Stop\<close> on a bridge that is not connected is a no-op. It returns the \<open>HttpIO\<close>
  unchanged and only logs; in the running system the call changes nothing but the trace,
  to which it adds that one log line: no sender on the stop channel, no teardown.
\<close>

theorem Stop_not_connected:
  "\<not> connected (hio s) \<Longrightarrow> \<not> crashed s \<Longrightarrow>
   Stop (hio s) = (hio s, [Log DebugLevel ''Not currently connected, nothing to stop''])
   \<and> step P s CallStop =
       s\<lparr>trace := trace s @ [Log DebugLevel ''Not currently connected, nothing to stop'']\<rparr>"
  by (simp add: Stop_def step_def performs_def)

theorem Stop_not_connected_witness:
  "\<not> connected (hio (boot (DeejRef 0) (Logger ''deej'')))
   \<and> \<not> crashed (boot (DeejRef 0) (Logger ''deej''))
   \<and> Stop (hio (boot (DeejRef 0) (Logger ''deej''))) =
       (hio (boot (DeejRef 0) (Logger ''deej'')),
        [Log DebugLevel ''Not currently connected, nothing to stop''])
   \<and> step (\<lambda>sio lg line. (sio, [])) (boot (DeejRef 0) (Logger ''deej'')) CallStop =
       (boot (DeejRef 0) (Logger ''deej''))
         \<lparr>trace := trace (boot (DeejRef 0) (Logger ''deej'')) @
            [Log DebugLevel ''Not currently connected, nothing to stop'']\<rparr>"
proof -
  have c: "\<not> connected (hio (boot (DeejRef 0) (Logger ''deej'')))"
    by (simp add: boot_eval)
  have a: "\<not> crashed (boot (DeejRef 0) (Logger ''deej''))"
    by (simp add: boot_eval)
  from Stop_not_connected [OF c a] c a show ?thesis
    by simp
qed

subsection \<open>C8: the listener\<close>

text \<open>
  Claim C8: the listener of \<open>Start\<close> binds the fixed address \<open>localhost:6332\<close> and registers
  exactly one route, \<open>POST /serial\<close>. The engine that reaches \<open>router.Run\<close> holds that one
  route, with \<open>handleSerialCommand\<close> as its handler, and \<open>Start\<close> launches one listener.
\<close>

theorem listener_single_route:
  "listener lineChannel =
     ([Log InfoLevel ''Starting server at localhost:6332/serial''],
      \<lparr>routes = [(''POST'', ''/serial'', handleSerialCommand lineChannel)]\<rparr>,
      ''localhost:6332'')
   \<and> snd (snd (Start h next)) = ([Go (Listener next), Go (ControllerLoop next)], Suc next)"
  by (simp add: listener_def POST_def gin_Default_def Start_def make_chan_def)

subsection \<open>C9: the connected flag\<close>

text \<open>
  Claim C9: \<open>connected\<close> is false from \<open>NewHttpIO\<close> on and no operation sets it: it is
  false in every reachable state, where \<open>Stop\<close> therefore takes its second branch and
  nobody ever waits to send on the stop channel. \<open>Start\<close>, \<open>Stop\<close>,
  \<open>SubscribeToSliderMoveEvents\<close>, \<open>handleLine\<close> and the delayed reset leave the flag of any
  \<open>HttpIO\<close> as it is, and \<open>close\<close>, when it returns, leaves it false.
\<close>

theorem connected_always_false:
  "connected (fst (fst (NewHttpIO d lg n))) = False
   \<and> \<not> connected (hio (run P (boot d lg) es))
   \<and> stopSenders (run P (boot d lg) es) = 0
   \<and> Stop (hio (run P (boot d lg) es)) =
       (hio (run P (boot d lg) es),
        [Log DebugLevel ''Not currently connected, nothing to stop''])
   \<and> connected (fst (snd (Start h n))) = connected h
   \<and> connected (fst (Stop h)) = connected h
   \<and> connected (fst (snd (SubscribeToSliderMoveEvents h n))) = connected h
   \<and> connected (fst (handleLine P h lg' line)) = connected h
   \<and> connected (delayedReset h) = connected h
   \<and> (\<forall>h' out. close h = Inr (h', out) \<longrightarrow> \<not> connected h')"
proof -
  have new: "connected (fst (fst (NewHttpIO d lg n))) = False"
    by (simp add: NewHttpIO_def setupOnConfigReload_def SubscribeToChanges_def make_chan_def)
  have inv: "safe (run P (boot d lg) es)"
    by (rule safe_reached)
  then have reached: "\<not> connected (hio (run P (boot d lg) es))"
    and senders: "stopSenders (run P (boot d lg) es) = 0"
    by (simp_all add: safe_def)
  from reached have branch: "Stop (hio (run P (boot d lg) es)) =
      (hio (run P (boot d lg) es), [Log DebugLevel ''Not currently connected, nothing to stop''])"
    by (simp add: Stop_def)
  have start: "connected (fst (snd (Start h n))) = connected h"
    by (simp add: Start_def make_chan_def)
  have stop: "connected (fst (Stop h)) = connected h"
    by (simp add: Stop_def)
  have sub: "connected (fst (snd (SubscribeToSliderMoveEvents h n))) = connected h"
    by (simp add: SubscribeToSliderMoveEvents_def make_chan_def)
  have line: "connected (fst (handleLine P h lg' line)) = connected h"
    by (simp add: handleLine_state)
  have reset: "connected (delayedReset h) = connected h"
    by (simp add: delayedReset_def)
  have cl: "\<forall>h' out. close h = Inr (h', out) \<longrightarrow> \<not> connected h'"
    by (auto simp add: close_def split: option.splits)
  from new reached senders branch start stop sub line reset cl show ?thesis
    by blast
qed

text \<open>
  A run through every kind of event, and \<open>close\<close> on a connected \<open>HttpIO\<close> that holds a
  handle (a state the file itself never builds).
\<close>

theorem connected_always_false_witness:
  "\<not> connected (hio (run (\<lambda>sio lg line. (sio, [])) (boot (DeejRef 0) (Logger ''deej''))
       [CallStart, CallStop, CallSubscribe, ReceiveLine 0 ''100|50|0'', ConfigReloaded,
        Elapse 50000000, ResetFires 0, RunReturns 0 (Some ''bind: address already in use''),
        ReceiveStop 0]))
   \<and> close \<lparr>deej = DeejRef 0, logger = Logger ''deej.http'', stopChannel = 0,
              connected = True, conn = Some (Conn None), lastKnownNumSliders = 3,
              currentSliderPercentValues = [100, 50, 0], sliderMoveConsumers = [2]\<rparr>
       = Inr (\<lparr>deej = DeejRef 0, logger = Logger ''deej.http'', stopChannel = 0,
                connected = False, conn = None, lastKnownNumSliders = 3,
                currentSliderPercentValues = [100, 50, 0], sliderMoveConsumers = [2]\<rparr>,
              [Log DebugLevel ''HTTP connection closed''])
   \<and> \<not> connected \<lparr>deej = DeejRef 0, logger = Logger ''deej.http'', stopChannel = 0,
                connected = False, conn = None, lastKnownNumSliders = 3,
                currentSliderPercentValues = [100, 50, 0], sliderMoveConsumers = [2]\<rparr>"
proof -
  let ?h = "\<lparr>deej = DeejRef 0, logger = Logger ''deej.http'', stopChannel = 0,
              connected = True, conn = Some (Conn None), lastKnownNumSliders = 3,
              currentSliderPercentValues = [100, 50, 0], sliderMoveConsumers = [2]\<rparr>"
  let ?h' = "\<lparr>deej = DeejRef 0, logger = Logger ''deej.http'', stopChannel = 0,
              connected = False, conn = None, lastKnownNumSliders = 3,
              currentSliderPercentValues = [100, 50, 0], sliderMoveConsumers = [2]\<rparr>"
  have c: "close ?h = Inr (?h', [Log DebugLevel ''HTTP connection closed''])"
    by (simp add: close_def)
  note T = connected_always_false [of "DeejRef 0" "Logger ''deej''" 0
      "\<lambda>sio lg line. (sio, [])"
      "[CallStart, CallStop, CallSubscribe, ReceiveLine 0 ''100|50|0'', ConfigReloaded,
        Elapse 50000000, ResetFires 0, RunReturns 0 (Some ''bind: address already in use''),
        ReceiveStop 0]" ?h "Logger ''deej''" "''100|50|0''"]
  from T have "close ?h = Inr (?h', [Log DebugLevel ''HTTP connection closed'']) \<longrightarrow>
      \<not> connected ?h'"
    by blast
  with c have "\<not> connected ?h'"
    by blast
  with T c show ?thesis
    by blast
qed

subsection \<open>C10: what the delayed reset writes\<close>

text \<open>
  Claim C10: a delayed reset, when it fires, writes \<open>lastKnownNumSliders\<close> and nothing
  else. Putting the old count back gives the old \<open>HttpIO\<close>, so the stored percentages, the
  subscribers, the connection state and the stop channel are as before; in the running
  system the goroutines with their channels and the senders on the stop channel are as
  before too.
\<close>

theorem delayedReset_frame:
  "lastKnownNumSliders (delayedReset h) = 0
   \<and> (delayedReset h)\<lparr>lastKnownNumSliders := lastKnownNumSliders h\<rparr> = h
   \<and> currentSliderPercentValues (delayedReset h) = currentSliderPercentValues h
   \<and> sliderMoveConsumers (delayedReset h) = sliderMoveConsumers h
   \<and> connected (delayedReset h) = connected h
   \<and> conn (delayedReset h) = conn h
   \<and> stopChannel (delayedReset h) = stopChannel h
   \<and> (hio (step P s (ResetFires i)))\<lparr>lastKnownNumSliders := lastKnownNumSliders (hio s)\<rparr> = hio s
   \<and> listeners (step P s (ResetFires i)) = listeners s
   \<and> controllers (step P s (ResetFires i)) = controllers s
   \<and> reloaders (step P s (ResetFires i)) = reloaders s
   \<and> stopSenders (step P s (ResetFires i)) = stopSenders s"
  by (simp add: delayedReset_def step_def)

end
